theory Spec2Isabelle
  imports Complex_Main "HOL-Library.Sublist"
begin

text \<open>
  The client of the TATVGYA platform: its API helpers, the authentication provider, the
  router with its protected routes, and the handlers of the article page, of Explore,
  of the dashboards and of the login screen. The first part embeds the code, function
  by function and under the names of the source; the second part states and proves
  what is claimed of it.
\<close>

section \<open>The API client: \<open>frontend/src/lib/api.js\<close>\<close>

subsection \<open>JSON values and the JavaScript operations the client applies to them\<close>

text \<open>
  A parsed JSON body. Numbers are the integers (the counts and ids this backend
  sends); an object keeps its members in the order of the text, so that a duplicated
  key can be resolved as \<open>JSON.parse\<close> does (the last one wins).
\<close>

datatype json =
    JNull
  | JBool bool
  | JNum int
  | JStr string
  | JArr "json list"
  | JObj "(string \<times> json) list"

text \<open>What the client can throw: \<open>new Error(v)\<close> (the message of the error is the
  string conversion of \<open>v\<close>, for a string \<open>v\<close> the string itself), the \<open>TypeError\<close> of a
  property read on \<open>null\<close>, the \<open>SyntaxError\<close> of \<open>response.json()\<close> on a body that is
  not JSON, and the rejection of \<open>fetch\<close> itself when no response arrives.\<close>

datatype js_error =
    Error json
  | TypeError
  | SyntaxError
  | FetchFailed

text \<open>JavaScript truthiness, as \<open>||\<close> tests it.\<close>

fun truthy :: "json \<Rightarrow> bool" where
  "truthy JNull = False"
| "truthy (JBool b) = b"
| "truthy (JNum n) = (n \<noteq> 0)"
| "truthy (JStr s) = (s \<noteq> [])"
| "truthy (JArr xs) = True"
| "truthy (JObj kvs) = True"

text \<open>The member of an object under a key: the last one in the text.\<close>

fun member_of :: "(string \<times> json) list \<Rightarrow> string \<Rightarrow> json option" where
  "member_of [] k = None"
| "member_of ((k', v) # kvs) k =
     (case member_of kvs k of
        Some w \<Rightarrow> Some w
      | None \<Rightarrow> (if k' = k then Some v else None))"

text \<open>\<open>v.k\<close> for a key \<open>k\<close> that no prototype defines (\<open>detail\<close>, \<open>user\<close>, \<open>role\<close>):
  \<open>None\<close> is \<open>undefined\<close>. Reading a property of \<open>null\<close> throws; a string, a number, a
  boolean and an array have no property of such a name.\<close>

fun get_prop :: "json \<Rightarrow> string \<Rightarrow> js_error + json option" where
  "get_prop JNull k = Inl TypeError"
| "get_prop (JObj kvs) k = Inr (member_of kvs k)"
| "get_prop (JBool b) k = Inr None"
| "get_prop (JNum n) k = Inr None"
| "get_prop (JStr s) k = Inr None"
| "get_prop (JArr xs) k = Inr None"

text \<open>\<open>v?.k\<close>, for \<open>v\<close> possibly \<open>null\<close> or \<open>undefined\<close> (both \<open>None\<close> here, and \<open>Some JNull\<close>
  when the \<open>null\<close> came out of a JSON body).\<close>

fun optional_prop :: "json option \<Rightarrow> string \<Rightarrow> json option" where
  "optional_prop None k = None"
| "optional_prop (Some JNull) k = None"
| "optional_prop (Some (JObj kvs)) k = member_of kvs k"
| "optional_prop (Some (JBool b)) k = None"
| "optional_prop (Some (JNum n)) k = None"
| "optional_prop (Some (JStr s)) k = None"
| "optional_prop (Some (JArr xs)) k = None"

text \<open>\<open>v || fallback\<close>, with \<open>v\<close> possibly \<open>undefined\<close>.\<close>

fun or_else :: "json option \<Rightarrow> json \<Rightarrow> json" where
  "or_else None fallback = fallback"
| "or_else (Some v) fallback = (if truthy v then v else fallback)"

subsection \<open>Requests and responses\<close>

text \<open>The second argument of \<open>apiCall\<close>: the members of \<open>options\<close> the client ever sets.\<close>

record options =
  opt_method :: "string option"
  opt_body :: "json option"
  opt_headers :: "(string \<times> string) list"

definition no_options :: options where
  "no_options = \<lparr>opt_method = None, opt_body = None, opt_headers = []\<rparr>"

text \<open>What \<open>fetch\<close> is called with. \<open>body\<close> holds the value that was given to
  \<open>JSON.stringify\<close>.\<close>

record request =
  url :: string
  http_method :: "string option"
  credentials :: "string option"
  headers :: "(string \<times> string) list"
  body :: "json option"

text \<open>A response, as far as the client reads it: \<open>response.ok\<close>, and the result of
  \<open>response.json()\<close> (\<open>None\<close> when the body is not JSON and the promise rejects).\<close>

record response =
  ok :: bool
  parsed :: "json option"

datatype fetch_result = NoResponse | Response response

text \<open>\<open>{'Content-Type': 'application/json', ...options.headers}\<close>: a header of the
  caller's replaces the default of the same name in place, any other is added after it.\<close>

definition merge_headers :: "(string \<times> string) list \<Rightarrow> (string \<times> string) list" where
  "merge_headers hs =
     (case map_of (rev hs) ''Content-Type'' of
        None \<Rightarrow> (''Content-Type'', ''application/json'')
      | Some v \<Rightarrow> (''Content-Type'', v))
     # filter (\<lambda>(k, v). k \<noteq> ''Content-Type'') hs"

definition public_request :: "string \<Rightarrow> string \<Rightarrow> options \<Rightarrow> request" where
  "public_request API_URL endpoint opts =
     \<lparr>url = API_URL @ endpoint,
      http_method = opt_method opts,
      credentials = None,
      headers = merge_headers (opt_headers opts),
      body = opt_body opts\<rparr>"

definition auth_request :: "string \<Rightarrow> string \<Rightarrow> options \<Rightarrow> request" where
  "auth_request API_URL endpoint opts =
     \<lparr>url = API_URL @ endpoint,
      http_method = opt_method opts,
      credentials = Some ''include'',
      headers = merge_headers (opt_headers opts),
      body = opt_body opts\<rparr>"

text \<open>The part of both helpers after the \<open>await fetch(...)\<close>.\<close>

definition handle_response :: "fetch_result \<Rightarrow> js_error + json" where
  "handle_response fr =
     (case fr of
        NoResponse \<Rightarrow> Inl FetchFailed
      | Response r \<Rightarrow>
          if \<not> ok r then
            (let error = (case parsed r of
                            None \<Rightarrow> JObj [(''detail'', JStr ''An error occurred'')]
                          | Some j \<Rightarrow> j)
             in case get_prop error ''detail'' of
                  Inl e \<Rightarrow> Inl e
                | Inr d \<Rightarrow> Inl (Error (or_else d (JStr ''Request failed''))))
          else
            (case parsed r of
               None \<Rightarrow> Inl SyntaxError
             | Some j \<Rightarrow> Inr j))"

text \<open>
  \<open>publicApiCall\<close> and \<open>apiCall\<close>. The network is the function \<open>fetch\<close>; the list holds the
  requests sent so far, and each helper returns it with its own requests
  added, next to what the promise settles to (\<open>Inl\<close>: it rejects with that error).
  \<open>API_URL\<close> is built from the environment of the build and is a parameter here.
\<close>

definition publicApiCall ::
  "(request \<Rightarrow> fetch_result) \<Rightarrow> string \<Rightarrow> string \<Rightarrow> options \<Rightarrow> request list
     \<Rightarrow> (js_error + json) \<times> request list" where
  "publicApiCall fetch API_URL endpoint opts sent =
     (let req = public_request API_URL endpoint opts
      in (handle_response (fetch req), sent @ [req]))"

definition apiCall ::
  "(request \<Rightarrow> fetch_result) \<Rightarrow> string \<Rightarrow> string \<Rightarrow> options \<Rightarrow> request list
     \<Rightarrow> (js_error + json) \<times> request list" where
  "apiCall fetch API_URL endpoint opts sent =
     (let req = auth_request API_URL endpoint opts
      in (handle_response (fetch req), sent @ [req]))"

section \<open>Asynchronous handlers\<close>

text \<open>
  An \<open>async\<close> function runs synchronously up to its first \<open>await\<close>, and the rest of it
  runs when the awaited promise settles. A handler is therefore either finished, with
  the state it leaves (\<open>Return\<close>), or suspended (\<open>Await\<close>): the call it has issued, the
  state the screen shows while the call is in flight, and the rest of the handler, a
  function of what the call settles to and of the state at that later moment (React's
  setters write into the state of the moment they run in, whereas a state variable read
  in the handler's body is the one of the render the handler was created in).
\<close>

datatype ('s, 'q, 'r, 'n) async =
    Return 's
  | Await 'q 's "'r \<Rightarrow> 's \<Rightarrow> 'n"

text \<open>The call in flight, and the state shown meanwhile.\<close>

fun pending :: "('s, 'q, 'r, 'n) async \<Rightarrow> ('q \<times> 's) option" where
  "pending (Return s) = None"
| "pending (Await q s k) = Some (q, s)"

text \<open>The handler's continuation, once the call has settled to \<open>r\<close> and the state is \<open>now\<close>.\<close>

fun resume :: "('s, 'q, 'r, 'n) async \<Rightarrow> 'r \<Rightarrow> 's \<Rightarrow> 'n option" where
  "resume (Return s) r now = None"
| "resume (Await q s k) r now = Some (k r now)"

text \<open>A handler run to its end against a server, with no other event in between.\<close>

fun serve :: "('q \<Rightarrow> 'r) \<Rightarrow> ('s, 'q, 'r, 's) async \<Rightarrow> 's" where
  "serve srv (Return s) = s"
| "serve srv (Await q s k) = k (srv q) s"

text \<open>A rejected promise as the screens read it: \<open>error.message\<close>.\<close>

datatype failure = Failure (message: string)

text \<open>\<open>s || fallback\<close> on strings.\<close>

definition or_text :: "string \<Rightarrow> string \<Rightarrow> string" where
  "or_text s fallback = (if s = [] then fallback else s)"

datatype toast = ToastError string | ToastSuccess string

section \<open>\<open>AuthProvider\<close>: the authentication context\<close>

text \<open>The state of the provider. \<open>user\<close> is whatever the backend sent, or \<open>None\<close> for
  \<open>null\<close> and \<open>undefined\<close>.\<close>

record loadable =
  loading :: bool

record auth = loadable +
  user :: "json option"

text \<open>\<open>isAuthenticated: !!user\<close>\<close>

definition isAuthenticated :: "auth \<Rightarrow> bool" where
  "isAuthenticated a = (case user a of None \<Rightarrow> False | Some u \<Rightarrow> truthy u)"

text \<open>The request \<open>register\<close> sends. The three arguments are the strings of the form.\<close>

definition register_request :: "string \<Rightarrow> string \<Rightarrow> string \<Rightarrow> string \<Rightarrow> request" where
  "register_request API_URL name email password =
     \<lparr>url = API_URL @ ''/auth/register'',
      http_method = Some ''POST'',
      credentials = None,
      headers = [(''Content-Type'', ''application/json'')],
      body = Some (JObj [(''name'', JStr name), (''email'', JStr email),
                         (''password'', JStr password), (''role'', JStr ''student'')])\<rparr>"

text \<open>How the provider's methods read a response: unlike \<open>apiCall\<close>, without a fallback
  for an error body that is not JSON.\<close>

definition auth_response :: "string \<Rightarrow> fetch_result \<Rightarrow> js_error + json" where
  "auth_response fallback fr =
     (case fr of
        NoResponse \<Rightarrow> Inl FetchFailed
      | Response r \<Rightarrow>
          if \<not> ok r then
            (case parsed r of
               None \<Rightarrow> Inl SyntaxError
             | Some error \<Rightarrow>
                 (case get_prop error ''detail'' of
                    Inl e \<Rightarrow> Inl e
                  | Inr d \<Rightarrow> Inl (Error (or_else d (JStr fallback)))))
          else
            (case parsed r of
               None \<Rightarrow> Inl SyntaxError
             | Some j \<Rightarrow> Inr j))"

text \<open>\<open>register\<close>: what the promise settles to, and the provider's state after it.\<close>

definition register ::
  "string \<Rightarrow> string \<Rightarrow> string \<Rightarrow> string \<Rightarrow> auth
     \<Rightarrow> (auth, request, fetch_result, (js_error + json) \<times> auth) async" where
  "register API_URL name email password st =
     Await (register_request API_URL name email password) st
       (\<lambda>fr now. (auth_response ''Registration failed'' fr, now))"

definition login_request :: "string \<Rightarrow> string \<Rightarrow> string \<Rightarrow> request" where
  "login_request API_URL email password =
     \<lparr>url = API_URL @ ''/auth/login'',
      http_method = Some ''POST'',
      credentials = Some ''include'',
      headers = [(''Content-Type'', ''application/json'')],
      body = Some (JObj [(''email'', JStr email), (''password'', JStr password)])\<rparr>"

text \<open>\<open>login\<close>, for comparison: on success it stores \<open>data.user\<close>.\<close>

definition login ::
  "string \<Rightarrow> string \<Rightarrow> string \<Rightarrow> auth
     \<Rightarrow> (auth, request, fetch_result, (js_error + json) \<times> auth) async" where
  "login API_URL email password st =
     Await (login_request API_URL email password) st
       (\<lambda>fr now.
          case auth_response ''Login failed'' fr of
            Inl e \<Rightarrow> (Inl e, now)
          | Inr data \<Rightarrow>
              (case get_prop data ''user'' of
                 Inl e \<Rightarrow> (Inl e, now)
               | Inr u \<Rightarrow> (Inr data, now\<lparr>user := u\<rparr>)))"

section \<open>Routing: \<open>ProtectedRoute\<close> and \<open>AppRouter\<close>\<close>

text \<open>\<open>useLocation()\<close>. The router reads \<open>location.hash\<close> through \<open>?.\<close>, so the hash may
  be absent.\<close>

record location =
  pathname :: string
  hash :: "string option"

text \<open>What a route renders: the spinner, a redirect (with the navigation state it
  carries, if any), or a component.\<close>

datatype 'c element =
    Spinner
  | Navigate string "location option"
  | Render 'c

text \<open>\<open>allowedRoles.includes(v)\<close> on an array of strings: only a string is ever equal to
  one of them.\<close>

fun includes_role :: "string list \<Rightarrow> json option \<Rightarrow> bool" where
  "includes_role roles (Some (JStr s)) = (s \<in> set roles)"
| "includes_role roles v = False"

definition ProtectedRoute :: "'c \<Rightarrow> string list \<Rightarrow> auth \<Rightarrow> location \<Rightarrow> 'c element" where
  "ProtectedRoute children allowedRoles a loc =
     (if loading a then Spinner
      else if \<not> isAuthenticated a then Navigate ''/login'' (Some loc)
      else if length allowedRoles > 0
              \<and> \<not> includes_role allowedRoles (optional_prop (user a) ''role'')
           then Navigate ''/'' None
      else Render children)"

text \<open>The components of the route table; a dynamic segment (\<open>:id\<close>) is the argument.\<close>

datatype page =
    Home
  | Explore
  | Article string
  | EducatorProfile string
  | Login
  | AuthCallback
  | Contact
  | About
  | Vision
  | StudentDashboard
  | EducatorDashboard
  | ArticleEditor "string option"
  | AdminDashboard

text \<open>\<open>s.includes(t)\<close>: \<open>t\<close> occurs in \<open>s\<close> as a contiguous run of characters.\<close>

fun str_includes :: "string \<Rightarrow> string \<Rightarrow> bool" where
  "str_includes [] t = (t = [])"
| "str_includes (c # cs) t = (prefix t (c # cs) \<or> str_includes cs t)"

text \<open>The segments of a path: the text between slashes.\<close>

fun split_path :: "string \<Rightarrow> string \<Rightarrow> string list" where
  "split_path acc [] = [rev acc]"
| "split_path acc (c # cs) =
     (if c = CHR ''/'' then rev acc # split_path [] cs else split_path (c # acc) cs)"

definition segments :: "string \<Rightarrow> string list" where
  "segments p = filter (\<lambda>s. s \<noteq> []) (split_path [] p)"

text \<open>The router compares the literal segments of a route without regard to the case
  of the ASCII letters.\<close>

definition lower_ascii :: "char \<Rightarrow> char" where
  "lower_ascii c =
     (let n = (of_char c :: nat) in if 65 \<le> n \<and> n \<le> 90 then char_of (n + 32) else c)"

definition is_segment :: "string \<Rightarrow> string \<Rightarrow> bool" where
  "is_segment literal s = (map lower_ascii s = literal)"

text \<open>
  The route table of \<open>AppRouter\<close>, matched on the segments of the path: a literal
  route is tried before the parametrised one of the same length (\<open>/educator/create\<close>
  before \<open>/educator/:id\<close>), as the router ranks them, and \<open>*\<close> takes the rest. A
  parameter (\<open>:id\<close>) is handed on as it stands in the path; the router also decodes
  percent escapes in it, which is left out here, so the table is the router's for paths
  without percent escapes.
\<close>

definition Routes :: "auth \<Rightarrow> location \<Rightarrow> page element" where
  "Routes a loc =
     (case segments (pathname loc) of
        [] \<Rightarrow> Render Home
      | [s] \<Rightarrow>
          if is_segment ''explore'' s then Render Explore
          else if is_segment ''login'' s then Render Login
          else if is_segment ''contact'' s then Render Contact
          else if is_segment ''about'' s then Render About
          else if is_segment ''vision'' s then Render Vision
          else if is_segment ''dashboard'' s
            then ProtectedRoute StudentDashboard [''student''] a loc
          else if is_segment ''educator'' s
            then ProtectedRoute EducatorDashboard [''educator'', ''admin''] a loc
          else if is_segment ''admin'' s then ProtectedRoute AdminDashboard [''admin''] a loc
          else Navigate ''/'' None
      | [s, i] \<Rightarrow>
          if is_segment ''auth'' s \<and> is_segment ''callback'' i then Render AuthCallback
          else if is_segment ''educator'' s \<and> is_segment ''create'' i
            then ProtectedRoute (ArticleEditor None) [''educator'', ''admin''] a loc
          else if is_segment ''article'' s then Render (Article i)
          else if is_segment ''educator'' s then Render (EducatorProfile i)
          else Navigate ''/'' None
      | [s, t, i] \<Rightarrow>
          if is_segment ''educator'' s \<and> is_segment ''edit'' t
          then ProtectedRoute (ArticleEditor (Some i)) [''educator'', ''admin''] a loc
          else Navigate ''/'' None
      | _ \<Rightarrow> Navigate ''/'' None)"

definition AppRouter :: "auth \<Rightarrow> location \<Rightarrow> page element" where
  "AppRouter a loc =
     (if (case hash loc of None \<Rightarrow> False | Some h \<Rightarrow> str_includes h ''session_id='')
      then Render AuthCallback
      else Routes a loc)"

section \<open>Entities and the calls of \<open>api.js\<close> the screens make\<close>

text \<open>An article and an educator as the screens read them: the fields that the
  handlers and the cards below use.\<close>

record article =
  article_id :: string
  title :: string
  is_liked :: bool
  is_bookmarked :: bool
  view_count :: int
  like_count :: int
  bookmark_count :: int

record educator =
  educator_id :: string
  total_articles :: int
  total_views :: int
  total_likes :: int
  total_bookmarks :: int

text \<open>A value of a query parameter, before \<open>URLSearchParams\<close> turns it into text.\<close>

datatype param = PNum nat | PStr string

text \<open>The exported functions of \<open>api.js\<close> that the handlers below call, with their
  arguments. Each of them is one \<open>apiCall\<close>.\<close>

datatype api_call =
    GetArticles "(string \<times> param) list"
  | GetArticle string
  | GetRelatedArticles string nat
  | LikeArticle string
  | BookmarkArticle string
  | GetEducator string
  | GetEducatorArticles string "(string \<times> param) list"
  | DeleteArticle string
  | ArticleAction string string "string option"

text \<open>The answers of \<open>likeArticle\<close> and \<open>bookmarkArticle\<close>: \<open>result.liked\<close> and
  \<open>result.like_count\<close>, \<open>result.bookmarked\<close> and \<open>result.bookmark_count\<close>.\<close>

datatype like_result = LikeResult (liked: bool) (new_like_count: int)

datatype bookmark_result = BookmarkResult (bookmarked: bool) (new_bookmark_count: int)

section \<open>\<open>formatNumber\<close>\<close>

text \<open>
  The counts are modelled as integers, and this section is the code for the integers
  that a JavaScript number holds exactly, those of magnitude below \<open>2^53\<close>. A larger
  integer is rounded to a double when the body is parsed, and from \<open>10^21\<close> on
  \<open>toString\<close> and \<open>toFixed\<close> print an exponent: neither is modelled, and nothing below is
  stated outside that range.
\<close>

definition safe_integer :: "int \<Rightarrow> bool" where
  "safe_integer n = (\<bar>n\<bar> < 2 ^ 53)"

text \<open>\<open>n.toString()\<close> for such an integer \<open>n\<close>: its decimal digits, after a minus sign
  when it is negative.\<close>

definition digit :: "int \<Rightarrow> char" where
  "digit d = ''0123456789'' ! nat d"

function show_digits :: "int \<Rightarrow> string" where
  "show_digits n = (if n < 10 then [digit n] else show_digits (n div 10) @ [digit (n mod 10)])"
  by pat_completeness auto
termination
  by (relation "measure nat") auto

definition show_int :: "int \<Rightarrow> string" where
  "show_int i = (if i < 0 then CHR ''-'' # show_digits (- i) else show_digits i)"

text \<open>
  \<open>a / b\<close> in double precision, for integers \<open>a \<ge> b > 0\<close> that are doubles themselves
  (every count below \<open>2^53\<close> is): the quotient lies in \<open>[2^e, 2^(e+1))\<close>, and is rounded
  to the nearest multiple of \<open>2^(e-52)\<close>, to the even one of two nearest. The result is
  the exact value of the double, a rational number.
\<close>

function floor_log2 :: "int \<Rightarrow> nat" where
  "floor_log2 n = (if n < 2 then 0 else Suc (floor_log2 (n div 2)))"
  by pat_completeness auto
termination
  by (relation "measure nat") auto

definition round_half_even :: "int \<Rightarrow> int \<Rightarrow> int" where
  "round_half_even n d =
     (let q = n div d; r = n mod d
      in if 2 * r < d then q else if d < 2 * r then q + 1 else if even q then q else q + 1)"

definition fdiv :: "int \<Rightarrow> int \<Rightarrow> rat" where
  "fdiv a b =
     (let e = floor_log2 (a div b)
      in if e \<le> 52
         then of_int (round_half_even (a * 2 ^ (52 - e)) b) / of_int (2 ^ (52 - e))
         else of_int (round_half_even a (b * 2 ^ (e - 52)) * 2 ^ (e - 52)))"

text \<open>\<open>x.toFixed(1)\<close> for a double \<open>0 \<le> x < 10^21\<close> (the quotients of the integers
  above are): with \<open>n\<close> the integer for which
  \<open>n / 10\<close> is nearest to \<open>x\<close> (the larger of two nearest), the digits of \<open>n\<close> with a point
  before the last one.\<close>

definition toFixed1 :: "rat \<Rightarrow> string" where
  "toFixed1 x =
     (let n = \<lfloor>x * 10 + 1 / 2\<rfloor>
      in show_int (n div 10) @ ''.'' @ show_int (n mod 10))"

text \<open>\<open>formatNumber\<close> of \<open>ArticleCard\<close> and of \<open>EducatorProfile\<close>. The argument is the field
  as received: an integer of the range above, or \<open>None\<close> when the field is missing or
  \<open>null\<close>.\<close>

definition formatNumber :: "int option \<Rightarrow> string" where
  "formatNumber num =
     (case num of
        None \<Rightarrow> ''0''
      | Some n \<Rightarrow>
          if n \<ge> 1000000 then toFixed1 (fdiv n 1000000) @ ''M''
          else if n \<ge> 1000 then toFixed1 (fdiv n 1000) @ ''K''
          else or_text (show_int n) ''0'')"

text \<open>\<open>formatNumber\<close> of \<open>EducatorDashboard\<close> and of \<open>AdminDashboard\<close>: no millions.\<close>

definition formatNumber_dashboard :: "int option \<Rightarrow> string" where
  "formatNumber_dashboard num =
     (case num of
        None \<Rightarrow> ''0''
      | Some n \<Rightarrow>
          if n \<ge> 1000 then toFixed1 (fdiv n 1000) @ ''K''
          else or_text (show_int n) ''0'')"

text \<open>The three counters an \<open>ArticleCard\<close> shows, and the three statistics of the
  educator's dashboard (\<open>stats?.total_views\<close> and the like).\<close>

definition ArticleCard_counters :: "article \<Rightarrow> string list" where
  "ArticleCard_counters a =
     [formatNumber (Some (view_count a)), formatNumber (Some (like_count a)),
      formatNumber (Some (bookmark_count a))]"

definition EducatorDashboard_statistics :: "educator option \<Rightarrow> string list" where
  "EducatorDashboard_statistics stats =
     [formatNumber_dashboard (map_option total_views stats),
      formatNumber_dashboard (map_option total_likes stats),
      formatNumber_dashboard (map_option total_bookmarks stats)]"

section \<open>The screens\<close>

text \<open>What every screen below has besides its loading flag: the toasts it has shown and
  the navigations it has asked for, in order.\<close>

record screen = loadable +
  toasts :: "toast list"
  navigations :: "string list"

subsection \<open>The article page\<close>

record article_page = screen +
  article :: "article option"
  relatedArticles :: "article list"
  isLiked :: bool
  isBookmarked :: bool
  likeCount :: int
  bookmarkCount :: int

text \<open>\<open>fetchData\<close> of the article page, for the route parameter \<open>id\<close>. Both awaits are in
  one \<open>try\<close>, whose \<open>catch\<close> shows a toast and leaves for \<open>/explore\<close>.\<close>

definition Article_fetchData ::
  "string \<Rightarrow> article_page
     \<Rightarrow> (article_page, api_call, failure + article,
         (article_page, api_call, failure + article list, article_page) async) async" where
  "Article_fetchData i st =
     Await (GetArticle i) (st\<lparr>loading := True\<rparr>)
       (\<lambda>r now.
          case r of
            Inl e \<Rightarrow>
              Return (now\<lparr>toasts := toasts now @ [ToastError ''Article not found''],
                           navigations := navigations now @ [''/explore''],
                           loading := False\<rparr>)
          | Inr articleData \<Rightarrow>
              Await (GetRelatedArticles (article_id articleData) 4)
                (now\<lparr>article := Some articleData,
                      isLiked := is_liked articleData,
                      isBookmarked := is_bookmarked articleData,
                      likeCount := like_count articleData,
                      bookmarkCount := bookmark_count articleData\<rparr>)
                (\<lambda>r' now'.
                   case r' of
                     Inl e \<Rightarrow>
                       now'\<lparr>toasts := toasts now' @ [ToastError ''Article not found''],
                             navigations := navigations now' @ [''/explore''],
                             loading := False\<rparr>
                   | Inr related \<Rightarrow> now'\<lparr>relatedArticles := related, loading := False\<rparr>))"

text \<open>\<open>handleLike\<close> and \<open>handleBookmark\<close>. \<open>authenticated\<close> is \<open>isAuthenticated\<close> of the
  context. Reading \<open>article.article_id\<close> while no article is loaded throws inside the
  \<open>try\<close>, before any call.\<close>

definition handleLike ::
  "bool \<Rightarrow> article_page \<Rightarrow> (article_page, api_call, failure + like_result, article_page) async"
  where
  "handleLike authenticated st =
     (if \<not> authenticated
      then Return (st\<lparr>toasts := toasts st @ [ToastError ''Please login to like articles'']\<rparr>)
      else case article st of
          None \<Rightarrow> Return (st\<lparr>toasts := toasts st @ [ToastError ''Failed to like article'']\<rparr>)
        | Some a \<Rightarrow>
            Await (LikeArticle (article_id a)) st
              (\<lambda>r now.
                 case r of
                   Inl e \<Rightarrow> now\<lparr>toasts := toasts now @ [ToastError ''Failed to like article'']\<rparr>
                 | Inr result \<Rightarrow>
                     now\<lparr>isLiked := liked result,
                          likeCount := new_like_count result,
                          toasts := toasts now
                            @ [ToastSuccess (if liked result then ''Article liked!''
                                             else ''Like removed'')]\<rparr>))"

definition handleBookmark ::
  "bool \<Rightarrow> article_page
     \<Rightarrow> (article_page, api_call, failure + bookmark_result, article_page) async" where
  "handleBookmark authenticated st =
     (if \<not> authenticated
      then Return (st\<lparr>toasts := toasts st @ [ToastError ''Please login to bookmark articles'']\<rparr>)
      else case article st of
          None \<Rightarrow> Return (st\<lparr>toasts := toasts st @ [ToastError ''Failed to bookmark article'']\<rparr>)
        | Some a \<Rightarrow>
            Await (BookmarkArticle (article_id a)) st
              (\<lambda>r now.
                 case r of
                   Inl e \<Rightarrow>
                     now\<lparr>toasts := toasts now @ [ToastError ''Failed to bookmark article'']\<rparr>
                 | Inr result \<Rightarrow>
                     now\<lparr>isBookmarked := bookmarked result,
                          bookmarkCount := new_bookmark_count result,
                          toasts := toasts now
                            @ [ToastSuccess (if bookmarked result then ''Article bookmarked!''
                                             else ''Bookmark removed'')]\<rparr>))"

subsection \<open>Lists of articles: the dashboards, the educator's profile, Explore\<close>

record listing = screen +
  articles :: "article list"

text \<open>\<open>handleDeleteArticle\<close> of the educator's dashboard. \<open>confirmed\<close> is the answer of
  \<open>window.confirm\<close>. The list that is filtered is the one of the render the handler was
  created in.\<close>

definition handleDeleteArticle ::
  "bool \<Rightarrow> string \<Rightarrow> listing \<Rightarrow> (listing, api_call, failure + json, listing) async" where
  "handleDeleteArticle confirmed articleId st =
     (if \<not> confirmed then Return st
      else Await (DeleteArticle articleId) st
        (\<lambda>r now.
           case r of
             Inr done \<Rightarrow>
               now\<lparr>articles := filter (\<lambda>a. article_id a \<noteq> articleId) (articles st),
                    toasts := toasts now @ [ToastSuccess ''Article deleted'']\<rparr>
           | Inl error \<Rightarrow>
               now\<lparr>toasts := toasts now
                 @ [ToastError (or_text (message error) ''Failed to delete article'')]\<rparr>))"

text \<open>\<open>handleArticleAction\<close> of the admin's dashboard.\<close>

definition handleArticleAction ::
  "string \<Rightarrow> string \<Rightarrow> string option \<Rightarrow> listing
     \<Rightarrow> (listing, api_call, failure + json, listing) async" where
  "handleArticleAction articleId action reason st =
     Await (ArticleAction articleId action reason) st
       (\<lambda>r now.
          case r of
            Inr done \<Rightarrow>
              now\<lparr>articles := filter (\<lambda>a. article_id a \<noteq> articleId) (articles st),
                   toasts := toasts now
                     @ [ToastSuccess (''Article '' @ action @ ''d successfully'')]\<rparr>
          | Inl error \<Rightarrow>
              now\<lparr>toasts := toasts now
                @ [ToastError (or_text (message error)
                                 (''Failed to '' @ action @ '' article''))]\<rparr>)"

text \<open>\<open>fetchData\<close> of the educator's profile: two calls at once under \<open>Promise.all\<close>, which
  fulfils with both answers or rejects.\<close>

record educator_profile = listing +
  educator :: "educator option"

definition EducatorProfile_fetchData ::
  "string \<Rightarrow> educator_profile
     \<Rightarrow> (educator_profile, api_call list, failure + educator \<times> article list,
         educator_profile) async" where
  "EducatorProfile_fetchData i st =
     Await [GetEducator i,
            GetEducatorArticles i [(''status'', PStr ''published''), (''limit'', PNum 20)]] st
       (\<lambda>r now.
          case r of
            Inr (educatorData, articlesData) \<Rightarrow>
              now\<lparr>educator := Some educatorData, articles := articlesData, loading := False\<rparr>
          | Inl error \<Rightarrow> now\<lparr>loading := False\<rparr>)"

subsection \<open>Explore\<close>

record filters =
  search :: string
  subject :: string
  sort :: string

record explore = listing +
  page :: nat
  hasMore :: bool
  filters :: filters

text \<open>The query of \<open>fetchArticles\<close>: \<open>subject\<close> and \<open>search\<close> are added when not empty.\<close>

definition article_params :: "nat \<Rightarrow> filters \<Rightarrow> (string \<times> param) list" where
  "article_params currentPage f =
     [(''page'', PNum currentPage), (''limit'', PNum 12), (''sort'', PStr (sort f))]
     @ (if subject f \<noteq> [] then [(''subject'', PStr (subject f))] else [])
     @ (if search f \<noteq> [] then [(''search'', PStr (search f))] else [])"

text \<open>
  \<open>fetchArticles\<close> is a \<open>useCallback\<close> over \<open>[page, filters]\<close>: the \<open>page\<close> and the
  \<open>filters\<close> in its body are those of the render that created it, the first two
  arguments here. The last argument is the state when it is called.
\<close>

definition fetchArticles ::
  "nat \<Rightarrow> filters \<Rightarrow> bool \<Rightarrow> explore
     \<Rightarrow> (explore, api_call, failure + article list, explore) async" where
  "fetchArticles page_of_render filters_of_render resetPage st =
     (let currentPage = (if resetPage then 1 else page_of_render)
      in Await (GetArticles (article_params currentPage filters_of_render))
           (st\<lparr>loading := True\<rparr>)
           (\<lambda>r now.
              case r of
                Inr data \<Rightarrow>
                  (if resetPage then now\<lparr>articles := data, page := 1\<rparr>
                   else now\<lparr>articles := articles now @ data\<rparr>)
                  \<lparr>hasMore := (length data = 12), loading := False\<rparr>
              | Inl error \<Rightarrow> now\<lparr>loading := False\<rparr>))"

text \<open>The effect that runs when the screen mounts and when the filters change, and
  \<open>handleSearch\<close>: \<open>fetchArticles(true)\<close>.\<close>

definition Explore_reload ::
  "explore \<Rightarrow> (explore, api_call, failure + article list, explore) async" where
  "Explore_reload st = fetchArticles (page st) (filters st) True st"

text \<open>\<open>loadMore\<close>, bound in the render of the state \<open>st\<close>: it queues the increment of
  \<open>page\<close> and calls the \<open>fetchArticles\<close> of that same render.\<close>

definition loadMore ::
  "explore \<Rightarrow> (explore, api_call, failure + article list, explore) async" where
  "loadMore st = fetchArticles (page st) (filters st) False (st\<lparr>page := page st + 1\<rparr>)"

text \<open>\<open>n\<close> clicks on \<open>Load More\<close>, each one answered before the next.\<close>

fun load_more_times :: "(api_call \<Rightarrow> failure + article list) \<Rightarrow> nat \<Rightarrow> explore \<Rightarrow> explore" where
  "load_more_times srv 0 st = st"
| "load_more_times srv (Suc n) st = load_more_times srv n (serve srv (loadMore st))"

text \<open>The state \<open>Explore\<close> mounts with, for the given initial filters.\<close>

definition Explore_initial :: "filters \<Rightarrow> explore" where
  "Explore_initial f =
     \<lparr>loading = True, toasts = [], navigations = [], articles = [],
      page = 1, hasMore = True, filters = f\<rparr>"

subsection \<open>The login screen\<close>

record formData =
  form_name :: string
  form_email :: string
  form_password :: string

record login_page = screen +
  isLogin :: bool
  showOtp :: bool
  email :: string
  otp :: string
  formData :: formData

text \<open>The methods of the authentication context that \<open>handleSubmit\<close> awaits.\<close>

datatype auth_call =
    CallLogin string string
  | CallRegister string string string

text \<open>\<open>handleSubmit\<close>. \<open>from\<close> is the path the user was sent to the login screen from.\<close>

definition handleSubmit ::
  "string \<Rightarrow> login_page \<Rightarrow> (login_page, auth_call, failure + json, login_page) async" where
  "handleSubmit from st =
     (if isLogin st
      then Await (CallLogin (form_email (formData st)) (form_password (formData st)))
             (st\<lparr>loading := True\<rparr>)
             (\<lambda>r now.
                case r of
                  Inr data \<Rightarrow>
                    now\<lparr>toasts := toasts now @ [ToastSuccess ''Welcome back!''],
                         navigations := navigations now @ [from],
                         loading := False\<rparr>
                | Inl error \<Rightarrow>
                    now\<lparr>toasts := toasts now @ [ToastError (message error)],
                         loading := False\<rparr>)
      else Await (CallRegister (form_name (formData st)) (form_email (formData st))
                    (form_password (formData st)))
             (st\<lparr>loading := True\<rparr>)
             (\<lambda>r now.
                case r of
                  Inr data \<Rightarrow>
                    now\<lparr>email := form_email (formData st),
                         showOtp := True,
                         toasts := toasts now @ [ToastSuccess ''OTP sent to your email''],
                         loading := False\<rparr>
                | Inl error \<Rightarrow>
                    now\<lparr>toasts := toasts now @ [ToastError (message error)],
                         loading := False\<rparr>))"

text \<open>What a call of the context's becomes on the network: the request of the method
  called.\<close>

fun auth_call_request :: "string \<Rightarrow> auth_call \<Rightarrow> request" where
  "auth_call_request API_URL (CallLogin e p) = login_request API_URL e p"
| "auth_call_request API_URL (CallRegister n e p) = register_request API_URL n e p"

section \<open>Reading a handler with two awaits, and sample data\<close>

text \<open>The call a handler issues next, once its first call has settled to \<open>r\<close> with
  nothing else in between; \<open>None\<close> when it issues no further call.\<close>

fun next_call :: "('s, 'q, 'r, ('s, 'p, 'x, 'n) async) async \<Rightarrow> 'r \<Rightarrow> 'p option" where
  "next_call (Return s) r = None"
| "next_call (Await q s k) r = map_option fst (pending (k r s))"

text \<open>Sample data for the concrete runs below: an article with a given id, the article
  page showing the article \<open>a1\<close>, neither liked nor bookmarked, and a backend whose
  page \<open>p\<close> of articles holds twelve articles \<open>p-0\<close>, ..., \<open>p-11\<close>.\<close>

definition sample_article :: "string \<Rightarrow> article" where
  "sample_article i =
     \<lparr>article_id = i, title = ''Title'', is_liked = False, is_bookmarked = False,
      view_count = 0, like_count = 0, bookmark_count = 0\<rparr>"

definition sample_article_page :: article_page where
  "sample_article_page =
     \<lparr>loading = False, toasts = [], navigations = [],
      article = Some (sample_article ''a1''), relatedArticles = [],
      isLiked = False, isBookmarked = False, likeCount = 0, bookmarkCount = 0\<rparr>"

definition sample_batch :: "nat \<Rightarrow> article list" where
  "sample_batch p =
     map (\<lambda>i. sample_article (show_int (int p) @ ''-'' @ show_int (int i))) [0..<12]"

fun sample_backend :: "api_call \<Rightarrow> failure + article list" where
  "sample_backend (GetArticles ps) =
     (case map_of ps ''page'' of
        Some (PNum p) \<Rightarrow> Inr (sample_batch p)
      | _ \<Rightarrow> Inl (Failure ''Request failed''))"
| "sample_backend q = Inl (Failure ''Request failed'')"

definition recent :: filters where
  "recent = \<lparr>search = [], subject = [], sort = ''recent''\<rparr>"

text \<open>A dashboard listing four articles, two of them with the id \<open>a2\<close>.\<close>

definition sample_listing :: listing where
  "sample_listing =
     \<lparr>loading = False, toasts = [], navigations = [],
      articles = [sample_article ''a1'', sample_article ''a2'', sample_article ''a3'',
                  (sample_article ''a2'')\<lparr>title := ''Second copy''\<rparr>]\<rparr>"

text \<open>A sign-up form, filled in.\<close>

definition sample_signup :: login_page where
  "sample_signup =
     \<lparr>loading = False, toasts = [], navigations = [], isLogin = False, showOtp = False,
      email = [], otp = [],
      formData = \<lparr>form_name = ''Asha'', form_email = ''asha@example.org'',
                   form_password = ''s3cret-pass''\<rparr>\<rparr>"

section \<open>Properties of the routing\<close>


lemma str_includes_sublist: "str_includes s t \<longleftrightarrow> sublist t s"
  by (induction s) (auto simp: sublist_Cons_right)

lemma str_includes_infix: "str_includes (u @ t @ v) t"
  by (simp add: str_includes_sublist)

lemma includes_role_iff:
  "includes_role rs v \<longleftrightarrow> (\<exists>s. v = Some (JStr s) \<and> s \<in> set rs)"
  by (cases "(rs, v)" rule: includes_role.cases) auto

text \<open>
  Claim C1. A route wrapped in \<open>ProtectedRoute\<close> shows the spinner while the
  authentication state is loading; it sends a user who is not authenticated to
  \<open>/login\<close>, with the location that was asked for in the navigation state; it sends an
  authenticated user whose role is not a member of a non-empty \<open>allowedRoles\<close> to \<open>/\<close>;
  and otherwise it renders its children. So whenever the children of a route with a
  non-empty \<open>allowedRoles\<close> are rendered, the user is authenticated and the user's role
  is one of the allowed roles.
\<close>

theorem ProtectedRoute_gate:
  "(loading a \<longrightarrow> ProtectedRoute c rs a loc = Spinner)
   \<and> (\<not> loading a \<and> \<not> isAuthenticated a \<longrightarrow>
        ProtectedRoute c rs a loc = Navigate ''/login'' (Some loc))
   \<and> (\<not> loading a \<and> isAuthenticated a \<and> rs \<noteq> []
        \<and> \<not> (\<exists>s. optional_prop (user a) ''role'' = Some (JStr s) \<and> s \<in> set rs) \<longrightarrow>
        ProtectedRoute c rs a loc = Navigate ''/'' None)
   \<and> (\<not> loading a \<and> isAuthenticated a
        \<and> (rs = [] \<or> (\<exists>s. optional_prop (user a) ''role'' = Some (JStr s) \<and> s \<in> set rs)) \<longrightarrow>
        ProtectedRoute c rs a loc = Render c)
   \<and> (ProtectedRoute c rs a loc = Render c' \<and> rs \<noteq> [] \<longrightarrow>
        c' = c \<and> isAuthenticated a
        \<and> (\<exists>s. optional_prop (user a) ''role'' = Some (JStr s) \<and> s \<in> set rs))"
proof (cases "loading a")
  case True
  then show ?thesis
    by (simp add: ProtectedRoute_def)
next
  case ready: False
  show ?thesis
  proof (cases "isAuthenticated a")
    case False
    with ready show ?thesis
      by (simp add: ProtectedRoute_def)
  next
    case True
    with ready show ?thesis
      by (auto simp: ProtectedRoute_def includes_role_iff)
  qed
qed

theorem ProtectedRoute_gate_witness:
  "ProtectedRoute AdminDashboard [''admin''] \<lparr>loading = True, user = None\<rparr>
     \<lparr>pathname = ''/admin'', hash = Some []\<rparr> = Spinner
   \<and> ProtectedRoute AdminDashboard [''admin''] \<lparr>loading = False, user = None\<rparr>
     \<lparr>pathname = ''/admin'', hash = Some []\<rparr>
       = Navigate ''/login'' (Some \<lparr>pathname = ''/admin'', hash = Some []\<rparr>)
   \<and> ProtectedRoute AdminDashboard [''admin'']
       \<lparr>loading = False, user = Some (JObj [(''role'', JStr ''student'')])\<rparr>
       \<lparr>pathname = ''/admin'', hash = Some []\<rparr> = Navigate ''/'' None
   \<and> ProtectedRoute AdminDashboard [''admin'']
       \<lparr>loading = False, user = Some (JObj [(''role'', JStr ''admin'')])\<rparr>
       \<lparr>pathname = ''/admin'', hash = Some []\<rparr> = Render AdminDashboard"
  using
    ProtectedRoute_gate [of "\<lparr>loading = True, user = None\<rparr>" AdminDashboard "[''admin'']"
      "\<lparr>pathname = ''/admin'', hash = Some []\<rparr>"]
    ProtectedRoute_gate [of "\<lparr>loading = False, user = None\<rparr>" AdminDashboard "[''admin'']"
      "\<lparr>pathname = ''/admin'', hash = Some []\<rparr>"]
    ProtectedRoute_gate [of "\<lparr>loading = False, user = Some (JObj [(''role'', JStr ''student'')])\<rparr>"
      AdminDashboard "[''admin'']" "\<lparr>pathname = ''/admin'', hash = Some []\<rparr>"]
    ProtectedRoute_gate [of "\<lparr>loading = False, user = Some (JObj [(''role'', JStr ''admin'')])\<rparr>"
      AdminDashboard "[''admin'']" "\<lparr>pathname = ''/admin'', hash = Some []\<rparr>"]
  by (simp add: isAuthenticated_def)

text \<open>
  Claim C9. For every location whose hash contains \<open>session_id=\<close> anywhere,
  \<open>AppRouter\<close> renders \<open>AuthCallback\<close>, whatever the path is and whoever the user is: the
  route table is not consulted.
\<close>

theorem AppRouter_session_id:
  "hash loc = Some (u @ ''session_id='' @ v) \<Longrightarrow> AppRouter a loc = Render AuthCallback"
  using str_includes_infix [of u "''session_id=''" v] by (simp add: AppRouter_def)

theorem AppRouter_session_id_witness:
  "hash \<lparr>pathname = ''/admin'', hash = Some ''#session_id=abc''\<rparr>
     = Some (''#'' @ ''session_id='' @ ''abc'')
   \<and> AppRouter \<lparr>loading = False, user = None\<rparr>
         \<lparr>pathname = ''/admin'', hash = Some ''#session_id=abc''\<rparr> = Render AuthCallback"
  using AppRouter_session_id
    [of "\<lparr>pathname = ''/admin'', hash = Some ''#session_id=abc''\<rparr>" "''#''" "''abc''"
      "\<lparr>loading = False, user = None\<rparr>"]
  by simp

section \<open>Properties of the API client\<close>

lemma handle_response_ok:
  "ok r \<Longrightarrow> handle_response (Response r)
     = (case parsed r of None \<Rightarrow> Inl SyntaxError | Some j \<Rightarrow> Inr j)"
  by (simp add: handle_response_def)

lemma handle_response_not_json:
  "\<not> ok r \<Longrightarrow> parsed r = None \<Longrightarrow>
   handle_response (Response r) = Inl (Error (JStr ''An error occurred''))"
  by (simp add: handle_response_def)

lemma handle_response_detail:
  "\<not> ok r \<Longrightarrow> parsed r = Some j \<Longrightarrow> get_prop j ''detail'' = Inr d \<Longrightarrow>
   handle_response (Response r) = Inl (Error (or_else d (JStr ''Request failed'')))"
  by (simp add: handle_response_def)

lemma handle_response_null:
  "\<not> ok r \<Longrightarrow> parsed r = Some JNull \<Longrightarrow> handle_response (Response r) = Inl TypeError"
  by (simp add: handle_response_def)

text \<open>
  Claim C2, as the code has it. For a response received by \<open>apiCall\<close> or by
  \<open>publicApiCall\<close>: when \<open>response.ok\<close> holds the call returns the parsed JSON body (and
  rejects with the parser's error when the body is not JSON); when it does not hold, the
  call throws an \<open>Error\<close> made from the body's \<open>detail\<close> when that is present and truthy,
  from \<open>An error occurred\<close> when the body is not JSON, and from \<open>Request failed\<close> when
  \<open>detail\<close> is absent or falsy (an empty string, \<open>0\<close>, \<open>false\<close>, \<open>null\<close>); a body that is
  \<open>null\<close> makes the read of \<open>detail\<close> throw. Each call sends exactly one request.
\<close>

theorem api_calls_settle:
  assumes which: "call = apiCall \<and> req = auth_request API_URL endpoint opts
                \<or> call = publicApiCall \<and> req = public_request API_URL endpoint opts"
    and answer: "fetch req = Response r"
  shows "(ok r \<and> parsed r = Some j \<longrightarrow> fst (call fetch API_URL endpoint opts sent) = Inr j)
    \<and> (ok r \<and> parsed r = None \<longrightarrow> fst (call fetch API_URL endpoint opts sent) = Inl SyntaxError)
    \<and> (\<not> ok r \<and> parsed r = None \<longrightarrow>
          fst (call fetch API_URL endpoint opts sent) = Inl (Error (JStr ''An error occurred'')))
    \<and> (\<not> ok r \<and> parsed r = Some j \<and> get_prop j ''detail'' = Inr (Some d) \<and> truthy d \<longrightarrow>
          fst (call fetch API_URL endpoint opts sent) = Inl (Error d))
    \<and> (\<not> ok r \<and> parsed r = Some j
          \<and> (get_prop j ''detail'' = Inr None
              \<or> (\<exists>d. get_prop j ''detail'' = Inr (Some d) \<and> \<not> truthy d)) \<longrightarrow>
          fst (call fetch API_URL endpoint opts sent) = Inl (Error (JStr ''Request failed'')))
    \<and> (\<not> ok r \<and> parsed r = Some JNull \<longrightarrow>
          fst (call fetch API_URL endpoint opts sent) = Inl TypeError)
    \<and> snd (call fetch API_URL endpoint opts sent) = sent @ [req]"
proof -
  have res: "fst (call fetch API_URL endpoint opts sent) = handle_response (Response r)"
    using which answer by (auto simp: apiCall_def publicApiCall_def Let_def)
  have one: "snd (call fetch API_URL endpoint opts sent) = sent @ [req]"
    using which by (auto simp: apiCall_def publicApiCall_def Let_def)
  show ?thesis
    unfolding res
    using one
    by (auto simp: handle_response_ok handle_response_not_json handle_response_detail
        handle_response_null)
qed

theorem api_calls_settle_witness:
  "fst (apiCall (\<lambda>q. Response \<lparr>ok = True, parsed = Some (JObj [(''total_views'', JNum 7)])\<rparr>)
         ''/api'' ''/admin/stats'' no_options []) = Inr (JObj [(''total_views'', JNum 7)])
   \<and> fst (publicApiCall
         (\<lambda>q. Response \<lparr>ok = False, parsed = Some (JObj [(''detail'', JStr ''Not found'')])\<rparr>)
         ''/api'' ''/subjects/9'' no_options []) = Inl (Error (JStr ''Not found''))
   \<and> fst (apiCall (\<lambda>q. Response \<lparr>ok = False, parsed = None\<rparr>)
         ''/api'' ''/admin/stats'' no_options []) = Inl (Error (JStr ''An error occurred''))
   \<and> fst (apiCall (\<lambda>q. Response \<lparr>ok = False, parsed = Some (JObj [])\<rparr>)
         ''/api'' ''/admin/stats'' no_options []) = Inl (Error (JStr ''Request failed''))
   \<and> snd (apiCall (\<lambda>q. Response \<lparr>ok = False, parsed = Some (JObj [])\<rparr>)
         ''/api'' ''/admin/stats'' no_options [])
       = [auth_request ''/api'' ''/admin/stats'' no_options]"
  using
    api_calls_settle [where call = apiCall and API_URL = "''/api''" and endpoint = "''/admin/stats''"
      and opts = no_options and req = "auth_request ''/api'' ''/admin/stats'' no_options"
      and fetch = "\<lambda>q. Response \<lparr>ok = True, parsed = Some (JObj [(''total_views'', JNum 7)])\<rparr>"
      and r = "\<lparr>ok = True, parsed = Some (JObj [(''total_views'', JNum 7)])\<rparr>"
      and j = "JObj [(''total_views'', JNum 7)]" and sent = "[]"]
    api_calls_settle [where call = publicApiCall and API_URL = "''/api''"
      and endpoint = "''/subjects/9''" and opts = no_options
      and req = "public_request ''/api'' ''/subjects/9'' no_options"
      and fetch = "\<lambda>q. Response \<lparr>ok = False, parsed = Some (JObj [(''detail'', JStr ''Not found'')])\<rparr>"
      and r = "\<lparr>ok = False, parsed = Some (JObj [(''detail'', JStr ''Not found'')])\<rparr>"
      and j = "JObj [(''detail'', JStr ''Not found'')]" and d = "JStr ''Not found''"
      and sent = "[]"]
    api_calls_settle [where call = apiCall and API_URL = "''/api''" and endpoint = "''/admin/stats''"
      and opts = no_options and req = "auth_request ''/api'' ''/admin/stats'' no_options"
      and fetch = "\<lambda>q. Response \<lparr>ok = False, parsed = None\<rparr>"
      and r = "\<lparr>ok = False, parsed = None\<rparr>" and sent = "[]"]
    api_calls_settle [where call = apiCall and API_URL = "''/api''" and endpoint = "''/admin/stats''"
      and opts = no_options and req = "auth_request ''/api'' ''/admin/stats'' no_options"
      and fetch = "\<lambda>q. Response \<lparr>ok = False, parsed = Some (JObj [])\<rparr>"
      and r = "\<lparr>ok = False, parsed = Some (JObj [])\<rparr>" and j = "JObj []" and sent = "[]"]
  by simp

text \<open>The claim as it was stated fails for a \<open>detail\<close> that is present and empty: the
  error is made from \<open>Request failed\<close>, not from the field.\<close>

theorem empty_detail_counterexample:
  "fst (apiCall (\<lambda>req. Response \<lparr>ok = False, parsed = Some (JObj [(''detail'', JStr '''')])\<rparr>)
         ''https://tatvgya.example/api'' ''/admin/stats'' no_options [])
     = Inl (Error (JStr ''Request failed''))
   \<and> member_of [(''detail'', JStr '''')] ''detail'' = Some (JStr '''')"
  by (simp add: apiCall_def handle_response_def)

section \<open>Properties of the article page\<close>

lemma handleLike_in_flight:
  "article st = Some a \<Longrightarrow> pending (handleLike True st) = Some (LikeArticle (article_id a), st)"
  by (simp add: handleLike_def)

lemma handleBookmark_in_flight:
  "article st = Some a \<Longrightarrow>
   pending (handleBookmark True st) = Some (BookmarkArticle (article_id a), st)"
  by (simp add: handleBookmark_def)

text \<open>
  Claim C3, as the code has it. The toggles are not optimistic. When an authenticated
  user presses the like (or bookmark) button on a loaded article, the handler issues
  the POST call and changes nothing while the call is in flight; when the call
  succeeds, \<open>isLiked\<close> and \<open>likeCount\<close> (or \<open>isBookmarked\<close> and \<open>bookmarkCount\<close>) are set to
  the values of the backend's answer, and a toast is shown.
\<close>

theorem toggles_follow_the_response:
  assumes "article st = Some a"
  shows "pending (handleLike True st) = Some (LikeArticle (article_id a), st)
    \<and> pending (handleBookmark True st) = Some (BookmarkArticle (article_id a), st)
    \<and> resume (handleLike True st) (Inr result) now
        = Some (now\<lparr>isLiked := liked result, likeCount := new_like_count result,
                    toasts := toasts now
                      @ [ToastSuccess (if liked result then ''Article liked!''
                                       else ''Like removed'')]\<rparr>)
    \<and> resume (handleBookmark True st) (Inr result') now'
        = Some (now'\<lparr>isBookmarked := bookmarked result',
                     bookmarkCount := new_bookmark_count result',
                     toasts := toasts now'
                       @ [ToastSuccess (if bookmarked result' then ''Article bookmarked!''
                                        else ''Bookmark removed'')]\<rparr>)"
proof (intro conjI)
  show "pending (handleLike True st) = Some (LikeArticle (article_id a), st)"
    using assms by (rule handleLike_in_flight)
  show "pending (handleBookmark True st) = Some (BookmarkArticle (article_id a), st)"
    using assms by (rule handleBookmark_in_flight)
qed (simp_all add: handleLike_def handleBookmark_def assms)

theorem toggles_follow_the_response_witness:
  "map_option fst (pending (handleLike True sample_article_page)) = Some (LikeArticle ''a1'')
   \<and> map_option (isLiked \<circ> snd) (pending (handleLike True sample_article_page)) = Some False
   \<and> map_option isLiked
        (resume (handleLike True sample_article_page) (Inr (LikeResult True 5))
           sample_article_page) = Some True
   \<and> map_option likeCount
        (resume (handleLike True sample_article_page) (Inr (LikeResult True 5))
           sample_article_page) = Some 5"
  using toggles_follow_the_response
    [where st = sample_article_page and a = "sample_article ''a1''"
       and result = "LikeResult True 5" and now = sample_article_page]
  by (simp add: sample_article_page_def sample_article_def)

text \<open>The claim as it was stated fails: while the call is in flight the flag and the
  count shown are still the ones from before the click.\<close>

theorem optimistic_toggle_counterexample:
  "map_option (\<lambda>(q, s). (q, isLiked s, likeCount s)) (pending (handleLike True sample_article_page))
     = Some (LikeArticle ''a1'', False, 0)
   \<and> map_option (\<lambda>(q, s). (q, isBookmarked s, bookmarkCount s))
        (pending (handleBookmark True sample_article_page))
     = Some (BookmarkArticle ''a1'', False, 0)
   \<and> isLiked sample_article_page = False \<and> likeCount sample_article_page = 0
   \<and> isBookmarked sample_article_page = False \<and> bookmarkCount sample_article_page = 0"
  by (simp add: handleLike_def handleBookmark_def sample_article_page_def sample_article_def)

lemma handleLike_rejected:
  "article st = Some a \<Longrightarrow>
   resume (handleLike True st) (Inl e) now
     = Some (now\<lparr>toasts := toasts now @ [ToastError ''Failed to like article'']\<rparr>)"
  by (simp add: handleLike_def)

lemma handleBookmark_rejected:
  "article st = Some a \<Longrightarrow>
   resume (handleBookmark True st) (Inl e) now
     = Some (now\<lparr>toasts := toasts now @ [ToastError ''Failed to bookmark article'']\<rparr>)"
  by (simp add: handleBookmark_def)

lemma serve_handleLike_rejected:
  "article st = Some a \<Longrightarrow> srv (LikeArticle (article_id a)) = Inl e \<Longrightarrow>
   serve srv (handleLike True st)
     = st\<lparr>toasts := toasts st @ [ToastError ''Failed to like article'']\<rparr>"
  by (simp add: handleLike_def)

lemma serve_handleBookmark_rejected:
  "article st = Some a \<Longrightarrow> srv (BookmarkArticle (article_id a)) = Inl e \<Longrightarrow>
   serve srv (handleBookmark True st)
     = st\<lparr>toasts := toasts st @ [ToastError ''Failed to bookmark article'']\<rparr>"
  by (simp add: handleBookmark_def)

text \<open>
  Claim C7. When the like (or bookmark) call fails, the state of the article page after
  the handler is the state before the click with one error toast added: \<open>isLiked\<close>,
  \<open>isBookmarked\<close>, \<open>likeCount\<close> and \<open>bookmarkCount\<close> are as they were. This holds too when
  other events changed the state while the call was in flight (the handler adds its
  toast to the state of that moment). A click of a user who is not authenticated
  issues no call and only adds the toast that asks to log in.
\<close>

theorem failed_toggle_keeps_state:
  "(article st = Some a \<and> srv (LikeArticle (article_id a)) = Inl e \<longrightarrow>
      serve srv (handleLike True st)
        = st\<lparr>toasts := toasts st @ [ToastError ''Failed to like article'']\<rparr>
      \<and> isLiked (serve srv (handleLike True st)) = isLiked st
      \<and> likeCount (serve srv (handleLike True st)) = likeCount st
      \<and> isBookmarked (serve srv (handleLike True st)) = isBookmarked st
      \<and> bookmarkCount (serve srv (handleLike True st)) = bookmarkCount st)
   \<and> (article st = Some a \<and> srv' (BookmarkArticle (article_id a)) = Inl e' \<longrightarrow>
      serve srv' (handleBookmark True st)
        = st\<lparr>toasts := toasts st @ [ToastError ''Failed to bookmark article'']\<rparr>
      \<and> isLiked (serve srv' (handleBookmark True st)) = isLiked st
      \<and> likeCount (serve srv' (handleBookmark True st)) = likeCount st
      \<and> isBookmarked (serve srv' (handleBookmark True st)) = isBookmarked st
      \<and> bookmarkCount (serve srv' (handleBookmark True st)) = bookmarkCount st)
   \<and> (article st = Some a \<longrightarrow>
      resume (handleLike True st) (Inl e) now
        = Some (now\<lparr>toasts := toasts now @ [ToastError ''Failed to like article'']\<rparr>)
      \<and> resume (handleBookmark True st) (Inl e') now
        = Some (now\<lparr>toasts := toasts now @ [ToastError ''Failed to bookmark article'']\<rparr>))
   \<and> handleLike False st
        = Return (st\<lparr>toasts := toasts st @ [ToastError ''Please login to like articles'']\<rparr>)
   \<and> handleBookmark False st
        = Return (st\<lparr>toasts := toasts st @ [ToastError ''Please login to bookmark articles'']\<rparr>)"
proof (intro conjI impI)
  show "handleLike False st
        = Return (st\<lparr>toasts := toasts st @ [ToastError ''Please login to like articles'']\<rparr>)"
    by (simp add: handleLike_def)
  show "handleBookmark False st
        = Return (st\<lparr>toasts := toasts st @ [ToastError ''Please login to bookmark articles'']\<rparr>)"
    by (simp add: handleBookmark_def)
qed (simp_all add: serve_handleLike_rejected serve_handleBookmark_rejected
      handleLike_rejected handleBookmark_rejected)

theorem failed_toggle_keeps_state_witness:
  "serve (\<lambda>q. Inl (Failure ''Request failed'')) (handleLike True sample_article_page)
     = sample_article_page\<lparr>toasts := [ToastError ''Failed to like article'']\<rparr>
   \<and> serve (\<lambda>q. Inl (Failure ''Request failed'')) (handleBookmark True sample_article_page)
     = sample_article_page\<lparr>toasts := [ToastError ''Failed to bookmark article'']\<rparr>
   \<and> handleLike False sample_article_page
     = Return (sample_article_page\<lparr>toasts := [ToastError ''Please login to like articles'']\<rparr>)"
  using failed_toggle_keeps_state
    [where st = sample_article_page and a = "sample_article ''a1''"
       and srv = "\<lambda>q. Inl (Failure ''Request failed'')"
       and srv' = "\<lambda>q. Inl (Failure ''Request failed'')"
       and e = "Failure ''Request failed''" and e' = "Failure ''Request failed''"]
  by (simp add: sample_article_page_def)

section \<open>Properties of the dashboards' lists\<close>

lemma serve_handleDeleteArticle:
  "serve srv (handleDeleteArticle True x st)
     = (case srv (DeleteArticle x) of
          Inr d \<Rightarrow> st\<lparr>articles := filter (\<lambda>a. article_id a \<noteq> x) (articles st),
                       toasts := toasts st @ [ToastSuccess ''Article deleted'']\<rparr>
        | Inl e \<Rightarrow> st\<lparr>toasts := toasts st
                       @ [ToastError (or_text (message e) ''Failed to delete article'')]\<rparr>)"
  by (simp add: handleDeleteArticle_def split: sum.splits)

lemma serve_handleArticleAction:
  "serve srv (handleArticleAction x action reason st)
     = (case srv (ArticleAction x action reason) of
          Inr d \<Rightarrow> st\<lparr>articles := filter (\<lambda>a. article_id a \<noteq> x) (articles st),
                       toasts := toasts st
                         @ [ToastSuccess (''Article '' @ action @ ''d successfully'')]\<rparr>
        | Inl e \<Rightarrow> st\<lparr>toasts := toasts st
                       @ [ToastError (or_text (message e)
                                        (''Failed to '' @ action @ '' article''))]\<rparr>)"
  by (simp add: handleArticleAction_def split: sum.splits)

text \<open>When the call has succeeded, the handler writes the filtered list of the render
  in which the button was pressed into the state of that later moment; when the call
  has failed it only adds a toast to that state.\<close>

lemma handleDeleteArticle_resumed:
  "resume (handleDeleteArticle True x st) (Inr d) now
     = Some (now\<lparr>articles := filter (\<lambda>a. article_id a \<noteq> x) (articles st),
                 toasts := toasts now @ [ToastSuccess ''Article deleted'']\<rparr>)"
  "resume (handleDeleteArticle True x st) (Inl e) now
     = Some (now\<lparr>toasts := toasts now
                 @ [ToastError (or_text (message e) ''Failed to delete article'')]\<rparr>)"
  by (simp_all add: handleDeleteArticle_def)

lemma handleArticleAction_resumed:
  "resume (handleArticleAction x action reason st) (Inr d) now
     = Some (now\<lparr>articles := filter (\<lambda>a. article_id a \<noteq> x) (articles st),
                 toasts := toasts now
                   @ [ToastSuccess (''Article '' @ action @ ''d successfully'')]\<rparr>)"
  "resume (handleArticleAction x action reason st) (Inl e) now
     = Some (now\<lparr>toasts := toasts now
                 @ [ToastError (or_text (message e)
                                  (''Failed to '' @ action @ '' article''))]\<rparr>)"
  by (simp_all add: handleArticleAction_def)

text \<open>In a run with nothing in between, the list after a success is the list from
  before without the entries of the id \<open>x\<close>, the others in their order, and the list
  after a failure is the list from before.\<close>

lemma list_mutation_uninterrupted:
  "(srv (DeleteArticle x) = Inr d \<longrightarrow>
      articles (serve srv (handleDeleteArticle True x st))
        = filter (\<lambda>a. article_id a \<noteq> x) (articles st))
   \<and> (srv (DeleteArticle x) = Inl e \<longrightarrow>
      articles (serve srv (handleDeleteArticle True x st)) = articles st)
   \<and> serve srv (handleDeleteArticle False x st) = st
   \<and> (srv (ArticleAction x action reason) = Inr d \<longrightarrow>
      articles (serve srv (handleArticleAction x action reason st))
        = filter (\<lambda>a. article_id a \<noteq> x) (articles st))
   \<and> (srv (ArticleAction x action reason) = Inl e \<longrightarrow>
      articles (serve srv (handleArticleAction x action reason st)) = articles st)"
proof -
  have unconfirmed: "serve srv (handleDeleteArticle False x st) = st"
    by (simp add: handleDeleteArticle_def)
  then show ?thesis
    by (simp add: serve_handleDeleteArticle serve_handleArticleAction)
qed

text \<open>
  Claim C10, on the code. The admin's dashboard lists the articles \<open>a1\<close>, \<open>a2\<close>, \<open>a3\<close>
  and a second \<open>a2\<close>. The admin approves \<open>a1\<close> and, while that call is in flight (the list
  and its buttons are shown as before), approves \<open>a3\<close>. The answer for \<open>a3\<close> arrives
  first and the list becomes \<open>a1\<close>, \<open>a2\<close>, \<open>a2\<close>. Then the answer for \<open>a1\<close> arrives, and
  the list becomes \<open>a2\<close>, \<open>a3\<close>, \<open>a2\<close>: not the list from just before without \<open>a1\<close>, for
  \<open>a3\<close> is in it again. The educator's delete does the same.
\<close>

theorem overlapping_actions_restore_article:
  "pending (handleArticleAction ''a1'' ''approve'' None sample_listing)
     = Some (ArticleAction ''a1'' ''approve'' None, sample_listing)
   \<and> map_option (map article_id \<circ> articles)
        (resume (handleArticleAction ''a3'' ''approve'' None sample_listing) (Inr JNull)
           sample_listing)
     = Some [''a1'', ''a2'', ''a2'']
   \<and> map_option (map article_id \<circ> articles)
        (Option.bind
           (resume (handleArticleAction ''a3'' ''approve'' None sample_listing) (Inr JNull)
              sample_listing)
           (resume (handleArticleAction ''a1'' ''approve'' None sample_listing) (Inr JNull)))
     = Some [''a2'', ''a3'', ''a2'']
   \<and> pending (handleDeleteArticle True ''a1'' sample_listing)
     = Some (DeleteArticle ''a1'', sample_listing)
   \<and> map_option (map article_id \<circ> articles)
        (resume (handleDeleteArticle True ''a3'' sample_listing) (Inr JNull) sample_listing)
     = Some [''a1'', ''a2'', ''a2'']
   \<and> map_option (map article_id \<circ> articles)
        (Option.bind
           (resume (handleDeleteArticle True ''a3'' sample_listing) (Inr JNull)
              sample_listing)
           (resume (handleDeleteArticle True ''a1'' sample_listing) (Inr JNull)))
     = Some [''a2'', ''a3'', ''a2'']"
  by (simp add: handleArticleAction_def handleDeleteArticle_def sample_listing_def
      sample_article_def)

section \<open>Properties of the \<open>fetchData\<close> effects\<close>

text \<open>
  Claim C6, as the code has it. The article page first asks for the article of the
  route's id; only when that call has succeeded does it ask for the related articles,
  and the argument of this second call is the \<open>article_id\<close> of the first call's answer;
  when the first call fails there is no second call. The educator's profile issues its
  two calls together, both from the route's id. No call is repeated after a failure.
\<close>

theorem calls_of_the_fetchData_effects:
  "map_option fst (pending (Article_fetchData i st)) = Some (GetArticle i)
   \<and> next_call (Article_fetchData i st) (Inr a) = Some (GetRelatedArticles (article_id a) 4)
   \<and> next_call (Article_fetchData i st) (Inl e) = None
   \<and> map_option fst (pending (EducatorProfile_fetchData i' st'))
       = Some [GetEducator i',
               GetEducatorArticles i' [(''status'', PStr ''published''), (''limit'', PNum 20)]]"
  by (simp add: Article_fetchData_def EducatorProfile_fetchData_def)

text \<open>The claim as it was stated fails on the article page: two answers to the same
  first call lead to two different second calls.\<close>

theorem related_call_depends_on_article_counterexample:
  "next_call (Article_fetchData ''intro-to-sets'' sample_article_page) (Inr (sample_article ''a1''))
     = Some (GetRelatedArticles ''a1'' 4)
   \<and> next_call (Article_fetchData ''intro-to-sets'' sample_article_page)
        (Inr (sample_article ''a2''))
     = Some (GetRelatedArticles ''a2'' 4)
   \<and> GetRelatedArticles ''a1'' 4 \<noteq> GetRelatedArticles ''a2'' 4"
  by (simp add: Article_fetchData_def sample_article_def)

section \<open>Properties of the registration\<close>

text \<open>
  Claim C8. Whatever name, email and password are submitted, the body of the request
  that \<open>register\<close> sends has \<open>role\<close> equal to \<open>student\<close>; the sign-up form reaches the
  backend only through \<open>register\<close>, called with the three fields of the form, so no input
  of the form changes the role; and \<open>register\<close> leaves the provider's state, the logged-in
  user included, as it is, whatever the backend answers.
\<close>

theorem register_sends_student:
  "map_option fst (pending (register API_URL nm em pw st))
     = Some (register_request API_URL nm em pw)
   \<and> optional_prop (body (register_request API_URL nm em pw)) ''role''
     = Some (JStr ''student'')
   \<and> map_option snd (resume (register API_URL nm em pw st) fr now) = Some now
   \<and> (\<not> isLogin pg \<longrightarrow>
        map_option (auth_call_request API_URL \<circ> fst) (pending (handleSubmit from pg))
          = Some (register_request API_URL (form_name (formData pg)) (form_email (formData pg))
                    (form_password (formData pg))))"
  by (simp add: register_def register_request_def handleSubmit_def)

theorem register_sends_student_witness:
  "map_option (auth_call_request ''/api'' \<circ> fst) (pending (handleSubmit ''/'' sample_signup))
     = Some (register_request ''/api'' ''Asha'' ''asha@example.org'' ''s3cret-pass'')
   \<and> optional_prop (body (register_request ''/api'' ''Asha'' ''asha@example.org'' ''s3cret-pass''))
       ''role'' = Some (JStr ''student'')"
  using register_sends_student
    [where pg = sample_signup and API_URL = "''/api''" and ?from = "''/''"
       and nm = "''Asha''" and em = "''asha@example.org''" and pw = "''s3cret-pass''"]
  by (simp add: sample_signup_def)

section \<open>Properties of \<open>formatNumber\<close>\<close>

text \<open>The two recursive equations are unfolded by hand where they are needed.\<close>

declare show_digits.simps [simp del] floor_log2.simps [simp del]

lemma show_digits_not_empty: "show_digits n \<noteq> []"
  by (subst show_digits.simps) simp

lemma digit_is_digit: "d < 10 \<Longrightarrow> digit d \<in> set ''0123456789''"
  unfolding digit_def by (rule nth_mem) simp

lemma last_show_digits: "last (show_digits n) \<in> set ''0123456789''"
proof (cases "n < 10")
  case True
  then have "last (show_digits n) = digit n"
    by (subst show_digits.simps) simp
  with True show ?thesis
    by (simp only: digit_is_digit)
next
  case False
  then have "last (show_digits n) = digit (n mod 10)"
    by (subst show_digits.simps) simp
  moreover have "n mod 10 < 10"
    by simp
  ultimately show ?thesis
    by (simp only: digit_is_digit)
qed

lemma show_int_not_empty: "show_int i \<noteq> []"
  by (simp add: show_int_def show_digits_not_empty)

lemma last_show_int: "last (show_int i) \<in> set ''0123456789''"
  using last_show_digits [of i] last_show_digits [of "- i"]
  by (simp add: show_int_def show_digits_not_empty del: set_simps list.set)

lemma show_int_no_suffix: "show_int i \<noteq> s @ ''K''" "show_int i \<noteq> s @ ''M''"
  using last_show_int [of i] by auto

text \<open>
  Claim C5, as the code has it, for the integers a JavaScript number holds exactly
  (\<open>safe_integer\<close>: of magnitude below \<open>2^53\<close>). A numeric field that a card or a dashboard passes
  through \<open>formatNumber\<close> (\<open>view_count\<close>, \<open>like_count\<close>, \<open>bookmark_count\<close>, \<open>total_views\<close>,
  \<open>total_likes\<close>, \<open>total_bookmarks\<close>) is displayed as received, in decimal digits, only
  when it is below 1000, and as \<open>0\<close> when it is missing. From 1000 on the text is
  computed: the quotient by 1000 with one decimal and the suffix \<open>K\<close> (in \<open>ArticleCard\<close>
  and \<open>EducatorProfile\<close>, from a million on, the quotient by 1000000 and the suffix \<open>M\<close>),
  which is never the text of the received value.
\<close>

theorem formatNumber_display:
  assumes "safe_integer n"
  shows "formatNumber None = ''0'' \<and> formatNumber_dashboard None = ''0''
   \<and> (n < 1000 \<longrightarrow>
        formatNumber (Some n) = show_int n \<and> formatNumber_dashboard (Some n) = show_int n)
   \<and> (1000 \<le> n \<and> n < 1000000 \<longrightarrow> formatNumber (Some n) = toFixed1 (fdiv n 1000) @ ''K'')
   \<and> (1000000 \<le> n \<longrightarrow> formatNumber (Some n) = toFixed1 (fdiv n 1000000) @ ''M'')
   \<and> (1000 \<le> n \<longrightarrow> formatNumber_dashboard (Some n) = toFixed1 (fdiv n 1000) @ ''K'')
   \<and> (1000 \<le> n \<longrightarrow>
        formatNumber (Some n) \<noteq> show_int n \<and> formatNumber_dashboard (Some n) \<noteq> show_int n)"
proof -
  have small: "formatNumber (Some n) = show_int n
      \<and> formatNumber_dashboard (Some n) = show_int n" if "n < 1000"
    using that
    by (simp add: formatNumber_def formatNumber_dashboard_def or_text_def show_int_not_empty)
  have large: "formatNumber (Some n) \<noteq> show_int n
      \<and> formatNumber_dashboard (Some n) \<noteq> show_int n" if "1000 \<le> n"
  proof -
    have "formatNumber (Some n) = toFixed1 (fdiv n 1000000) @ ''M''
        \<or> formatNumber (Some n) = toFixed1 (fdiv n 1000) @ ''K''"
      using that by (simp add: formatNumber_def)
    moreover have "formatNumber_dashboard (Some n) = toFixed1 (fdiv n 1000) @ ''K''"
      using that by (simp add: formatNumber_dashboard_def)
    ultimately show ?thesis
      using show_int_no_suffix [of n] by metis
  qed
  show ?thesis
    using small large by (simp add: formatNumber_def formatNumber_dashboard_def)
qed

theorem formatNumber_display_witness:
  "safe_integer 999 \<and> safe_integer 1500 \<and> safe_integer 2500000
   \<and> formatNumber (Some 999) = ''999'' \<and> formatNumber_dashboard (Some 999) = ''999''
   \<and> formatNumber (Some 1500) = ''1.5K'' \<and> formatNumber (Some 2500000) = ''2.5M''
   \<and> formatNumber_dashboard (Some 2500000) = ''2500.0K''"
proof -
  have safe: "safe_integer 999" "safe_integer 1500" "safe_integer 2500000"
    by (simp_all add: safe_integer_def)
  have "show_int 999 = ''999''" "toFixed1 (fdiv 1500 1000) = ''1.5''"
    "toFixed1 (fdiv 2500000 1000000) = ''2.5''" "toFixed1 (fdiv 2500000 1000) = ''2500.0''"
    by code_simp+
  then show ?thesis
    using safe formatNumber_display [OF safe(1)] formatNumber_display [OF safe(2)]
      formatNumber_display [OF safe(3)]
    by simp
qed

text \<open>The claim as it was stated fails: a view count of 1500 is shown as \<open>1.5K\<close>, and a
  like count of 1150 as \<open>1.1K\<close>.\<close>

theorem formatNumber_counterexample:
  "ArticleCard_counters ((sample_article ''a1'')\<lparr>view_count := 1500, like_count := 1150\<rparr>)
     = [''1.5K'', ''1.1K'', ''0'']
   \<and> EducatorDashboard_statistics
       (Some \<lparr>educator_id = ''e1'', total_articles = 3, total_views = 1500,
              total_likes = 20, total_bookmarks = 0\<rparr>) = [''1.5K'', ''20'', ''0'']"
  by code_simp

section \<open>Properties of Explore\<close>

text \<open>What \<open>Load More\<close> asks for is the page number that the state holds at the click,
  which is the number of the page fetched last after a reload; the state shown
  meanwhile already holds the next number.\<close>

lemma loadMore_in_flight:
  "pending (loadMore st)
     = Some (GetArticles (article_params (page st) (filters st)),
             st\<lparr>page := page st + 1, loading := True\<rparr>)"
  by (simp add: loadMore_def fetchArticles_def)

lemma loadMore_served:
  "srv (GetArticles (article_params (page st) (filters st))) = Inr data \<Longrightarrow>
   serve srv (loadMore st)
     = st\<lparr>page := page st + 1, articles := articles st @ data,
          hasMore := (length data = 12), loading := False\<rparr>"
  by (simp add: loadMore_def fetchArticles_def)

lemma Explore_reload_served:
  "srv (GetArticles (article_params 1 (filters st))) = Inr data \<Longrightarrow>
   serve srv (Explore_reload st)
     = st\<lparr>articles := data, page := 1, hasMore := (length data = 12), loading := False\<rparr>"
  by (simp add: Explore_reload_def fetchArticles_def)

text \<open>So, against a backend that answers page \<open>p\<close> with \<open>batch p\<close>: after the first load and
  \<open>n\<close> clicks the list is page 1, then the pages 1 to \<open>n\<close>.\<close>

lemma load_more_times_articles:
  assumes "\<And>p. srv (GetArticles (article_params p f)) = Inr (batch p)"
    and "filters st = f"
  shows "articles (load_more_times srv n st)
           = articles st @ concat (map batch [page st ..< page st + n])
       \<and> page (load_more_times srv n st) = page st + n
       \<and> filters (load_more_times srv n st) = f"
  using assms(2)
proof (induction n arbitrary: st)
  case 0
  then show ?case by simp
next
  case (Suc n)
  let ?st = "serve srv (loadMore st)"
  have step: "?st = st\<lparr>page := page st + 1, articles := articles st @ batch (page st),
                        hasMore := (length (batch (page st)) = 12), loading := False\<rparr>"
    using assms(1) Suc.prems by (simp add: loadMore_served)
  then have "filters ?st = f" "page ?st = page st + 1"
    "articles ?st = articles st @ batch (page st)"
    using Suc.prems by simp_all
  with Suc.IH [of ?st] show ?case
    by (simp add: upt_conv_Cons del: upt_Suc)
qed

lemma first_clicks:
  assumes "\<And>p. srv (GetArticles (article_params p f)) = Inr (batch p)"
  shows "articles (load_more_times srv n (serve srv (Explore_reload (Explore_initial f))))
           = batch 1 @ concat (map batch [1 ..< 1 + n])"
proof -
  let ?st = "serve srv (Explore_reload (Explore_initial f))"
  have "?st = (Explore_initial f)\<lparr>articles := batch 1, page := 1,
                 hasMore := (length (batch 1) = 12), loading := False\<rparr>"
    using assms by (simp add: Explore_reload_served Explore_initial_def)
  then have "articles ?st = batch 1" "page ?st = 1" "filters ?st = f"
    by (simp_all add: Explore_initial_def)
  with load_more_times_articles [of srv f batch ?st n] assms show ?thesis
    by simp
qed

text \<open>
  Claim C4, on the code. Explore mounts with the filter \<open>recent\<close> and loads page 1 of a
  backend that has twelve articles on every page. The first click on \<open>Load More\<close> then
  asks for page 1 again, not for page 2: the twelve articles of page 1 are appended to
  themselves, while the page number in the state becomes 2.
\<close>

theorem loadMore_fetches_first_page_again:
  "map_option fst (pending (Explore_reload (Explore_initial recent)))
     = Some (GetArticles [(''page'', PNum 1), (''limit'', PNum 12), (''sort'', PStr ''recent'')])
   \<and> map_option fst
        (pending (loadMore (serve sample_backend (Explore_reload (Explore_initial recent)))))
     = Some (GetArticles [(''page'', PNum 1), (''limit'', PNum 12), (''sort'', PStr ''recent'')])
   \<and> map article_id
        (articles (serve sample_backend
           (loadMore (serve sample_backend (Explore_reload (Explore_initial recent))))))
     = map article_id (sample_batch 1 @ sample_batch 1)
   \<and> page (serve sample_backend
        (loadMore (serve sample_backend (Explore_reload (Explore_initial recent))))) = 2
   \<and> hasMore (serve sample_backend
        (loadMore (serve sample_backend (Explore_reload (Explore_initial recent)))))"
  by code_simp

end
